theory Spec2Isabelle
  imports Complex_Main
begin

section \<open>The loan calculator of Lentera Wicaksana Pinjol\<close>

text \<open>
  A shallow embedding of the service class \<open>LoanCalculator\<close>
  (\<open>services/loan-calculator.ts\<close>): the types \<open>InterestType\<close>, \<open>LoanInput\<close> and
  \<open>LoanMetrics\<close>, the public method \<open>calculateMetrics\<close> and its four private helpers.

  Numbers. A TypeScript \<open>number\<close> is modelled as a \<^typ>\<open>real\<close>, the number type of the
  specification's data model, and every operation is the exact one: \<open>+\<close>, \<open>*\<close>, \<open>/\<close> are
  those of the reals, \<open>Math.pow\<close> is the real power and \<open>Math.round\<close> rounds half up.
  The model therefore has no rounding error, no overflow, no \<open>NaN\<close> and no \<open>Infinity\<close>.

  Errors. \<open>throw new Error(msg)\<close> is the value \<open>Inl (Error msg)\<close> of the result type
  \<open>error + 'a\<close>; a normal return is \<open>Inr\<close>.
\<close>

subsection \<open>Data model\<close>

datatype InterestType = daily | monthly_flat | reducing_balance

datatype TenorUnit = days | months

record LoanInput =
  amount :: real
  interestRate :: real
  interestType :: InterestType
  tenor :: real
  tenorUnit :: TenorUnit
  adminFee :: real
  monthlyIncome :: real
  lenderName :: string

datatype RiskLevel = Rendah | Sedang | Tinggi | Sangat_Berbahaya

record LoanMetrics =
  totalRepayment :: real
  monthlyInstallment :: real
  effectiveApr :: real
  dtiRatio :: real
  riskScore :: real
  riskLevel :: RiskLevel

datatype error = Error string

subsection \<open>Library functions of the host language\<close>

text \<open>\<open>Math.round(x)\<close>: the integer nearest to \<open>x\<close>, a tie going up.\<close>

definition Math_round :: "real \<Rightarrow> real" where
  "Math_round x = of_int \<lfloor>x + 1 / 2\<rfloor>"

text \<open>
  \<open>Math.pow(b, e)\<close>. The calculator calls it with the base \<open>1 + monthlyRateDecimal\<close> only,
  which is positive whenever the call is reached from \<open>calculateMetrics\<close>; for a positive
  base \<open>powr\<close> is the real power.
\<close>

definition Math_pow :: "real \<Rightarrow> real \<Rightarrow> real" where
  "Math_pow b e = b powr e"

text \<open>
  \<open>Number.MAX_VALUE\<close>, the largest finite double. An operation of the host language whose
  exact result is above it by more than half a unit in the last place, so every result of
  \<open>2 ^ 1024\<close> or more, returns \<open>Infinity\<close>; \<open>Infinity - 1\<close> is \<open>Infinity\<close> and
  \<open>Infinity / Infinity\<close> is \<open>NaN\<close>. The constant is used only to say that an exact value
  of the model lies outside the range of doubles.
\<close>

definition Number_MAX_VALUE :: real where
  "Number_MAX_VALUE = (2 - 1 / 2 ^ 52) * 2 ^ 1023"

subsection \<open>The private helpers\<close>

text \<open>\<open>validateInput\<close>: five checks in sequence, the first that fails throws.\<close>

definition validateInput :: "LoanInput \<Rightarrow> error + unit" where
  "validateInput input =
     (if amount input \<le> 0 then Inl (Error ''Jumlah pinjaman harus lebih dari 0'')
      else if interestRate input \<le> 0 then Inl (Error ''Suku bunga harus lebih dari 0'')
      else if tenor input \<le> 0 then Inl (Error ''Tenor harus lebih dari 0'')
      else if monthlyIncome input \<le> 0 then Inl (Error ''Gaji bulanan harus lebih dari 0'')
      else if adminFee input < 0 then Inl (Error ''Biaya admin tidak boleh negatif'')
      else Inr ())"

definition calculateDailyInterest :: "real \<Rightarrow> real \<Rightarrow> real \<Rightarrow> TenorUnit \<Rightarrow> real" where
  "calculateDailyInterest principal' dailyRate tenor' tenorUnit' =
     (let dailyRateDecimal = dailyRate / 100;
          tenorInDays = (if tenorUnit' = days then tenor' else tenor' * 30)
      in principal' * dailyRateDecimal * tenorInDays)"

definition calculateMonthlyFlatInterest :: "real \<Rightarrow> real \<Rightarrow> real \<Rightarrow> real" where
  "calculateMonthlyFlatInterest principal' monthlyRate tenorInMonths =
     (let monthlyRateDecimal = monthlyRate / 100
      in principal' * monthlyRateDecimal * tenorInMonths)"

text \<open>
  \<open>calculateReducingBalanceInterest\<close> returns the object
  \<open>{ monthlyInstallment, totalInterest }\<close>, here the pair in that order.
\<close>

definition calculateReducingBalanceInterest ::
    "real \<Rightarrow> real \<Rightarrow> real \<Rightarrow> real \<Rightarrow> real \<times> real" where
  "calculateReducingBalanceInterest principal' monthlyRate tenorInMonths adminFee' =
     (let monthlyRateDecimal = monthlyRate / 100 in
      if monthlyRateDecimal = 0 then ((principal' + adminFee') / tenorInMonths, 0)
      else
        let numerator = monthlyRateDecimal * Math_pow (1 + monthlyRateDecimal) tenorInMonths;
            denominator = Math_pow (1 + monthlyRateDecimal) tenorInMonths - 1;
            monthlyInstallmentPrincipal = (principal' * numerator) / denominator;
            monthlyInstallment' = monthlyInstallmentPrincipal + adminFee' / tenorInMonths;
            totalInterest' = monthlyInstallmentPrincipal * tenorInMonths - principal'
        in (monthlyInstallment', totalInterest'))"

subsection \<open>\<open>calculateMetrics\<close>\<close>

text \<open>
  The body of \<open>calculateMetrics\<close> after validation is split at its own comments. The
  first part computes the local variables; they are collected in a record so that
  statements can speak of the values before the final rounding.
\<close>

record Locals =
  tenorInMonths :: real
  totalInterest :: real
  effectiveAprRaw :: real
  monthlyInstallmentRaw :: real
  totalRepaymentRaw :: real
  dtiRatioRaw :: real

text \<open>
  \<open>tenorInMonths || 1\<close> is \<open>1\<close> when \<open>tenorInMonths\<close> is zero and \<open>tenorInMonths\<close> otherwise.
  The chain of \<open>if\<close> and \<open>else if\<close> over the interest type has one branch for each of the
  three values of \<open>InterestType\<close>, so the initial zeros of \<open>totalInterest\<close>, \<open>effectiveApr\<close>
  and \<open>monthlyInstallment\<close> are always overwritten.
\<close>

definition locals :: "LoanInput \<Rightarrow> Locals" where
  "locals input =
     (let principal' = amount input;
          tim = (if tenorUnit input = months then tenor input else tenor input / 30);
          (ti, apr, mi) =
            (case interestType input of
               daily \<Rightarrow>
                 (let ti = calculateDailyInterest principal' (interestRate input)
                             (tenor input) (tenorUnit input)
                  in (ti,
                      (interestRate input / 100) * 365 * 100,
                      (principal' + ti + adminFee input) / (if tim = 0 then 1 else tim)))
             | monthly_flat \<Rightarrow>
                 (let ti = calculateMonthlyFlatInterest principal' (interestRate input) tim
                  in (ti,
                      (interestRate input / 100) * 12 * 100,
                      (principal' + ti + adminFee input) / tim))
             | reducing_balance \<Rightarrow>
                 (let result = calculateReducingBalanceInterest principal'
                                 (interestRate input) tim (adminFee input)
                  in (snd result, (interestRate input / 100) * 12 * 100, fst result)));
          tr = principal' + ti + adminFee input;
          dti = (mi / monthlyIncome input) * 100
      in \<lparr> tenorInMonths = tim, totalInterest = ti, effectiveAprRaw = apr,
           monthlyInstallmentRaw = mi, totalRepaymentRaw = tr, dtiRatioRaw = dti \<rparr>)"

text \<open>The three factors of the risk score, each adding to the running score \<open>s\<close>.\<close>

definition factorOjk :: "bool \<Rightarrow> real \<Rightarrow> real" where
  "factorOjk isOjkRegistered s = (if \<not> isOjkRegistered then s + 50 else s)"

definition factorDti :: "real \<Rightarrow> real \<Rightarrow> real" where
  "factorDti dti s = (if dti > 40 then s + 30 else if dti > 30 then s + 15 else s)"

definition factorApr :: "real \<Rightarrow> real \<Rightarrow> real" where
  "factorApr apr s = (if apr > 36 then s + 30 else if apr > 20 then s + 10 else s)"

definition riskScoreOf :: "bool \<Rightarrow> real \<Rightarrow> real \<Rightarrow> real" where
  "riskScoreOf isOjkRegistered dti apr = factorApr apr (factorDti dti (factorOjk isOjkRegistered 0))"

definition riskLevelOf :: "real \<Rightarrow> RiskLevel" where
  "riskLevelOf score =
     (if score \<ge> 75 then Sangat_Berbahaya
      else if score \<ge> 50 then Tinggi
      else if score \<ge> 25 then Sedang
      else Rendah)"

text \<open>\<open>Math.round(x * 100) / 100\<close>, the rounding of the four returned amounts.\<close>

definition round2 :: "real \<Rightarrow> real" where
  "round2 x = Math_round (x * 100) / 100"

definition calculateMetrics :: "LoanInput \<Rightarrow> bool \<Rightarrow> error + LoanMetrics" where
  "calculateMetrics input isOjkRegistered =
     (case validateInput input of
        Inl e \<Rightarrow> Inl e
      | Inr _ \<Rightarrow>
          (let l = locals input;
               score = riskScoreOf isOjkRegistered (dtiRatioRaw l) (effectiveAprRaw l)
           in Inr \<lparr> totalRepayment = round2 (totalRepaymentRaw l),
                    monthlyInstallment = round2 (monthlyInstallmentRaw l),
                    effectiveApr = round2 (effectiveAprRaw l),
                    dtiRatio = round2 (dtiRatioRaw l),
                    riskScore = score,
                    riskLevel = riskLevelOf score \<rparr>))"

section \<open>Properties\<close>

lemmas helper_defs =
  calculateDailyInterest_def calculateMonthlyFlatInterest_def
  calculateReducingBalanceInterest_def Math_pow_def

lemmas score_defs = riskScoreOf_def factorOjk_def factorDti_def factorApr_def riskLevelOf_def

lemmas round_defs = round2_def Math_round_def

lemmas all_defs =
  calculateMetrics_def validateInput_def locals_def helper_defs score_defs round_defs

subsection \<open>What \<open>calculateMetrics\<close> returns, stage by stage\<close>

lemma validateInput_Inr:
  "(validateInput i = Inr u) =
   (0 < amount i \<and> 0 < interestRate i \<and> 0 < tenor i \<and> 0 < monthlyIncome i \<and> 0 \<le> adminFee i)"
  by (auto simp add: validateInput_def)

lemma calculateMetrics_Inr:
  "(calculateMetrics i reg = Inr m) =
   (validateInput i = Inr () \<and>
    m = \<lparr> totalRepayment = round2 (totalRepaymentRaw (locals i)),
          monthlyInstallment = round2 (monthlyInstallmentRaw (locals i)),
          effectiveApr = round2 (effectiveAprRaw (locals i)),
          dtiRatio = round2 (dtiRatioRaw (locals i)),
          riskScore = riskScoreOf reg (dtiRatioRaw (locals i)) (effectiveAprRaw (locals i)),
          riskLevel =
            riskLevelOf (riskScoreOf reg (dtiRatioRaw (locals i)) (effectiveAprRaw (locals i))) \<rparr>)"
  by (cases "validateInput i") (auto simp add: calculateMetrics_def Let_def)

lemma locals_tenorInMonths:
  "tenorInMonths (locals i) = (if tenorUnit i = months then tenor i else tenor i / 30)"
  by (cases "interestType i") (simp_all add: locals_def Let_def split: prod.splits)

lemma locals_effectiveAprRaw:
  "effectiveAprRaw (locals i) =
     (interestRate i / 100) * (if interestType i = daily then 365 else 12) * 100"
  by (cases "interestType i") (simp_all add: locals_def Let_def split: prod.splits)

lemma locals_totalInterest_daily:
  "interestType i = daily \<Longrightarrow>
   totalInterest (locals i) =
     amount i * (interestRate i / 100) * (if tenorUnit i = days then tenor i else tenor i * 30)"
  by (simp add: locals_def calculateDailyInterest_def Let_def)

lemma locals_totalInterest_flat:
  "interestType i = monthly_flat \<Longrightarrow>
   totalInterest (locals i) =
     amount i * (interestRate i / 100) * (if tenorUnit i = months then tenor i else tenor i / 30)"
  by (simp add: locals_def calculateMonthlyFlatInterest_def Let_def)

lemma locals_totalRepaymentRaw:
  "totalRepaymentRaw (locals i) = amount i + totalInterest (locals i) + adminFee i"
  by (cases "interestType i") (simp_all add: locals_def Let_def split: prod.splits)

lemma locals_dtiRatioRaw:
  "dtiRatioRaw (locals i) = (monthlyInstallmentRaw (locals i) / monthlyIncome i) * 100"
  by (cases "interestType i") (simp_all add: locals_def Let_def split: prod.splits)

lemma riskScoreOf_explicit:
  "riskScoreOf reg dti apr =
     (if reg then 0 else 50)
     + (if dti > 40 then 30 else if dti > 30 then 15 else 0)
     + (if apr > 36 then 30 else if apr > 20 then 10 else 0)"
  by (simp add: score_defs)

lemma riskLevel_top:
  "(riskLevelOf (riskScoreOf reg dti apr) = Sangat_Berbahaya) =
   (\<not> reg \<and> (dti > 40 \<or> apr > 36 \<or> (dti > 30 \<and> apr > 20)))"
  by (simp add: score_defs)

text \<open>
  The score is one of finitely many sums of the three factors; it is a whole number
  between 0 and 110.
\<close>

lemma riskScoreOf_range:
  "riskScoreOf reg dti apr \<in> \<int> \<and> 0 \<le> riskScoreOf reg dti apr \<and> riskScoreOf reg dti apr \<le> 110"
  by (simp add: score_defs)

text \<open>
  In exact arithmetic every divisor met after a successful validation is positive, so
  the convention \<open>x / 0 = 0\<close> of the logic is never exercised on a validated input: the
  tenor in months, the monthly income, and the denominator of the instalment formula.
\<close>

lemma validated_divisors_positive:
  assumes "validateInput i = Inr ()"
  shows "0 < tenorInMonths (locals i) \<and> 0 < monthlyIncome i \<and> interestRate i / 100 \<noteq> 0
       \<and> 0 < Math_pow (1 + interestRate i / 100) (tenorInMonths (locals i)) - 1"
  using assms
  by (auto simp add: validateInput_Inr locals_tenorInMonths Math_pow_def intro!: gr_one_powr)

subsection \<open>Divisions in double arithmetic\<close>

lemma Number_MAX_VALUE_less: "Number_MAX_VALUE < 2 ^ 1024 - 1"
  unfolding Number_MAX_VALUE_def by simp

lemma two_power_1024_le: "(2::real) ^ 1024 \<le> 2 ^ 2000"
  by (rule power_increasing) simp_all

text \<open>
  C8 (after validation no division by zero, no infinity and no NaN can arise). The
  divisors are positive in exact arithmetic, as shown above, but the values divided are
  not all doubles. A reducing-balance loan at 100 percent a month over 2000 months
  passes validation; the power \<open>(1 + interestRate / 100) ^ tenorInMonths\<close> of the instalment
  formula is \<open>2 ^ 2000\<close>, and both the numerator and the denominator of the formula exceed
  \<open>Number.MAX_VALUE\<close>. In doubles both are \<open>Infinity\<close> and their quotient is \<open>NaN\<close>.
\<close>

theorem instalment_formula_exceeds_double_range:
  "validateInput
     \<lparr> amount = 1000000, interestRate = 100, interestType = reducing_balance, tenor = 2000,
       tenorUnit = months, adminFee = 0, monthlyIncome = 5000000, lenderName = ''X'' \<rparr>
     = Inr ()
   \<and> Math_pow
       (1 + interestRate
          \<lparr> amount = 1000000, interestRate = 100, interestType = reducing_balance,
            tenor = 2000, tenorUnit = months, adminFee = 0, monthlyIncome = 5000000,
            lenderName = ''X'' \<rparr> / 100)
       (tenorInMonths (locals
          \<lparr> amount = 1000000, interestRate = 100, interestType = reducing_balance,
            tenor = 2000, tenorUnit = months, adminFee = 0, monthlyIncome = 5000000,
            lenderName = ''X'' \<rparr>))
     = 2 ^ 2000
   \<and> Number_MAX_VALUE < (100 / 100) * 2 ^ 2000
   \<and> Number_MAX_VALUE < 2 ^ 2000 - 1"
proof -
  have "(2::real) ^ 1024 - 1 \<le> 2 ^ 2000 - 1"
    using two_power_1024_le by simp
  with Number_MAX_VALUE_less have "Number_MAX_VALUE < 2 ^ 2000 - 1"
    by linarith
  then show ?thesis
    by (simp add: validateInput_def locals_tenorInMonths Math_pow_def)
qed

subsection \<open>Risk score\<close>

text \<open>
  C1 (the score lies in [0, 100]). The three maximal contributions are 50, 30 and 30, so
  an unregistered lender with a debt-to-income ratio above 40 and an annual rate above 36
  scores 110: here a daily loan whose instalment is 135 percent of the income.
\<close>

theorem riskScore_110_unregistered_severe:
  "calculateMetrics
     \<lparr> amount = 1000000, interestRate = 1, interestType = daily, tenor = 30,
       tenorUnit = days, adminFee = 50000, monthlyIncome = 1000000, lenderName = ''X'' \<rparr>
     False
   = Inr \<lparr> totalRepayment = 1350000, monthlyInstallment = 1350000, effectiveApr = 365,
           dtiRatio = 135, riskScore = 110, riskLevel = Sangat_Berbahaya \<rparr>"
  by (simp add: all_defs)

text \<open>
  C6 (the top tier needs an unregistered lender and a severe financial factor). As the
  claim states it, this fails: an unregistered lender with both financial factors at
  their middle level (ratio 32, annual rate 24) scores 50 + 15 + 10 = 75.
\<close>

theorem top_tier_without_severe_factor:
  "calculateMetrics
     \<lparr> amount = 1000000, interestRate = 2, interestType = monthly_flat, tenor = 10,
       tenorUnit = months, adminFee = 0, monthlyIncome = 375000, lenderName = ''X'' \<rparr>
     False
   = Inr \<lparr> totalRepayment = 1200000, monthlyInstallment = 120000, effectiveApr = 24,
           dtiRatio = 32, riskScore = 75, riskLevel = Sangat_Berbahaya \<rparr>
   \<and> dtiRatioRaw (locals
       \<lparr> amount = 1000000, interestRate = 2, interestType = monthly_flat, tenor = 10,
         tenorUnit = months, adminFee = 0, monthlyIncome = 375000, lenderName = ''X'' \<rparr>) = 32
   \<and> effectiveAprRaw (locals
       \<lparr> amount = 1000000, interestRate = 2, interestType = monthly_flat, tenor = 10,
         tenorUnit = months, adminFee = 0, monthlyIncome = 375000, lenderName = ''X'' \<rparr>) = 24"
  by (simp add: all_defs)

text \<open>
  C6, amended. For a validated input the level is Sangat Berbahaya exactly when the
  lender is unregistered and the two financial factors add at least 25 points: the
  unrounded ratio is above 40, or the unrounded annual rate is above 36, or the ratio is
  above 30 and the rate above 20. In particular a registered lender never reaches it.
\<close>

theorem top_tier_condition:
  assumes "calculateMetrics i reg = Inr m"
  shows "(riskLevel m = Sangat_Berbahaya) =
           (\<not> reg \<and> (dtiRatioRaw (locals i) > 40 \<or> effectiveAprRaw (locals i) > 36
                      \<or> (dtiRatioRaw (locals i) > 30 \<and> effectiveAprRaw (locals i) > 20)))
       \<and> (reg \<longrightarrow> riskLevel m \<noteq> Sangat_Berbahaya)"
  using assms by (simp add: calculateMetrics_Inr riskLevel_top)

theorem top_tier_condition_witness:
  "calculateMetrics
     \<lparr> amount = 1000000, interestRate = 1, interestType = daily, tenor = 30,
       tenorUnit = days, adminFee = 50000, monthlyIncome = 5000000, lenderName = ''Y'' \<rparr>
     True
   = Inr \<lparr> totalRepayment = 1350000, monthlyInstallment = 1350000, effectiveApr = 365,
           dtiRatio = 27, riskScore = 30, riskLevel = Sedang \<rparr>
   \<and> \<not> (dtiRatioRaw (locals
       \<lparr> amount = 1000000, interestRate = 1, interestType = daily, tenor = 30,
         tenorUnit = days, adminFee = 50000, monthlyIncome = 5000000, lenderName = ''Y'' \<rparr>) > 40)"
proof -
  let ?i = "\<lparr> amount = 1000000, interestRate = 1, interestType = daily, tenor = 30,
       tenorUnit = days, adminFee = 50000, monthlyIncome = 5000000, lenderName = ''Y'' \<rparr>"
  let ?m = "\<lparr> totalRepayment = 1350000, monthlyInstallment = 1350000, effectiveApr = 365,
           dtiRatio = 27, riskScore = 30, riskLevel = Sedang \<rparr>"
  have run: "calculateMetrics ?i True = Inr ?m"
    by (simp add: all_defs)
  have "dtiRatioRaw (locals ?i) = 27"
    by (simp add: locals_def helper_defs)
  with run top_tier_condition [OF run] show ?thesis by simp
qed

text \<open>
  C7. The affordability factor adds nothing at a ratio of exactly 30 and 15 points at
  30.01; it adds 15 points at exactly 40 and 30 points at 40.01. Both comparisons are
  strict. The same is seen on \<open>calculateMetrics\<close>: two registered monthly-flat loans at 12
  percent a year whose instalments are exactly 30 and 30.01 percent of the income.
\<close>

theorem affordability_thresholds_strict:
  "factorDti 30 s = s \<and> factorDti 30.01 s = s + 15
   \<and> factorDti 40 s = s + 15 \<and> factorDti 40.01 s = s + 30
   \<and> calculateMetrics
       \<lparr> amount = 1000, interestRate = 1, interestType = monthly_flat, tenor = 10,
         tenorUnit = months, adminFee = 100, monthlyIncome = 400, lenderName = ''X'' \<rparr>
       True
     = Inr \<lparr> totalRepayment = 1200, monthlyInstallment = 120, effectiveApr = 12,
             dtiRatio = 30, riskScore = 0, riskLevel = Rendah \<rparr>
   \<and> calculateMetrics
       \<lparr> amount = 1000, interestRate = 1, interestType = monthly_flat, tenor = 10,
         tenorUnit = months, adminFee = 100.4, monthlyIncome = 400, lenderName = ''X'' \<rparr>
       True
     = Inr \<lparr> totalRepayment = 1200.4, monthlyInstallment = 120.04, effectiveApr = 12,
             dtiRatio = 30.01, riskScore = 15, riskLevel = Rendah \<rparr>"
  by (simp add: all_defs)

text \<open>
  C10. The score is computed from the unrounded ratio and the unrounded annual rate;
  rounding to two decimals is applied to the returned fields only. For every validated
  input the returned score is the sum of the three factors read at the unrounded locals,
  and the returned \<open>dtiRatio\<close> and \<open>effectiveApr\<close> are the roundings of those locals.
  Hence the returned score cannot always be recomputed from the returned ratios: a
  registered monthly-flat loan whose instalment is 30.0025 percent of the income is
  returned with \<open>dtiRatio = 30\<close> and \<open>riskScore = 15\<close>, while the score of the returned
  ratios (30 and 12) is 0; and one whose unrounded annual rate is 20.004 is returned with
  \<open>effectiveApr = 20\<close> and \<open>riskScore = 10\<close>, while the score of the returned ratios (1.17
  and 20) is 0.
\<close>

theorem score_reads_unrounded_ratio:
  "(calculateMetrics i reg = Inr m \<longrightarrow>
      riskScore m =
        (if reg then 0 else 50)
        + (if dtiRatioRaw (locals i) > 40 then 30
           else if dtiRatioRaw (locals i) > 30 then 15 else 0)
        + (if effectiveAprRaw (locals i) > 36 then 30
           else if effectiveAprRaw (locals i) > 20 then 10 else 0)
      \<and> dtiRatioRaw (locals i) = (monthlyInstallmentRaw (locals i) / monthlyIncome i) * 100
      \<and> effectiveAprRaw (locals i) =
          (interestRate i / 100) * (if interestType i = daily then 365 else 12) * 100
      \<and> dtiRatio m = round2 (dtiRatioRaw (locals i))
      \<and> effectiveApr m = round2 (effectiveAprRaw (locals i)))
   \<and> calculateMetrics
       \<lparr> amount = 1000, interestRate = 1, interestType = monthly_flat, tenor = 10,
         tenorUnit = months, adminFee = 100.1, monthlyIncome = 400, lenderName = ''X'' \<rparr>
       True
     = Inr \<lparr> totalRepayment = 1200.1, monthlyInstallment = 120.01, effectiveApr = 12,
             dtiRatio = 30, riskScore = 15, riskLevel = Rendah \<rparr>
   \<and> dtiRatioRaw (locals
       \<lparr> amount = 1000, interestRate = 1, interestType = monthly_flat, tenor = 10,
         tenorUnit = months, adminFee = 100.1, monthlyIncome = 400, lenderName = ''X'' \<rparr>)
     = 30.0025
   \<and> 30 < dtiRatioRaw (locals
       \<lparr> amount = 1000, interestRate = 1, interestType = monthly_flat, tenor = 10,
         tenorUnit = months, adminFee = 100.1, monthlyIncome = 400, lenderName = ''X'' \<rparr>)
   \<and> dtiRatioRaw (locals
       \<lparr> amount = 1000, interestRate = 1, interestType = monthly_flat, tenor = 10,
         tenorUnit = months, adminFee = 100.1, monthlyIncome = 400, lenderName = ''X'' \<rparr>)
     < 30.005
   \<and> riskScoreOf True 30 12 = 0
   \<and> calculateMetrics
       \<lparr> amount = 1000, interestRate = 1.667, interestType = monthly_flat, tenor = 10,
         tenorUnit = months, adminFee = 0, monthlyIncome = 10000, lenderName = ''X'' \<rparr>
       True
     = Inr \<lparr> totalRepayment = 1166.7, monthlyInstallment = 116.67, effectiveApr = 20,
             dtiRatio = 1.17, riskScore = 10, riskLevel = Rendah \<rparr>
   \<and> effectiveAprRaw (locals
       \<lparr> amount = 1000, interestRate = 1.667, interestType = monthly_flat, tenor = 10,
         tenorUnit = months, adminFee = 0, monthlyIncome = 10000, lenderName = ''X'' \<rparr>)
     = 20.004
   \<and> riskScoreOf True 1.17 20 = 0"
proof -
  have general: "calculateMetrics i reg = Inr m \<longrightarrow>
      riskScore m =
        (if reg then 0 else 50)
        + (if dtiRatioRaw (locals i) > 40 then 30
           else if dtiRatioRaw (locals i) > 30 then 15 else 0)
        + (if effectiveAprRaw (locals i) > 36 then 30
           else if effectiveAprRaw (locals i) > 20 then 10 else 0)
      \<and> dtiRatioRaw (locals i) = (monthlyInstallmentRaw (locals i) / monthlyIncome i) * 100
      \<and> effectiveAprRaw (locals i) =
          (interestRate i / 100) * (if interestType i = daily then 365 else 12) * 100
      \<and> dtiRatio m = round2 (dtiRatioRaw (locals i))
      \<and> effectiveApr m = round2 (effectiveAprRaw (locals i))"
    using locals_dtiRatioRaw [of i] locals_effectiveAprRaw [of i]
    by (auto simp add: calculateMetrics_Inr riskScoreOf_explicit)
  have ratio: "calculateMetrics
       \<lparr> amount = 1000, interestRate = 1, interestType = monthly_flat, tenor = 10,
         tenorUnit = months, adminFee = 100.1, monthlyIncome = 400, lenderName = ''X'' \<rparr>
       True
     = Inr \<lparr> totalRepayment = 1200.1, monthlyInstallment = 120.01, effectiveApr = 12,
             dtiRatio = 30, riskScore = 15, riskLevel = Rendah \<rparr>
   \<and> dtiRatioRaw (locals
       \<lparr> amount = 1000, interestRate = 1, interestType = monthly_flat, tenor = 10,
         tenorUnit = months, adminFee = 100.1, monthlyIncome = 400, lenderName = ''X'' \<rparr>)
     = 30.0025
   \<and> 30 < dtiRatioRaw (locals
       \<lparr> amount = 1000, interestRate = 1, interestType = monthly_flat, tenor = 10,
         tenorUnit = months, adminFee = 100.1, monthlyIncome = 400, lenderName = ''X'' \<rparr>)
   \<and> dtiRatioRaw (locals
       \<lparr> amount = 1000, interestRate = 1, interestType = monthly_flat, tenor = 10,
         tenorUnit = months, adminFee = 100.1, monthlyIncome = 400, lenderName = ''X'' \<rparr>)
     < 30.005
   \<and> riskScoreOf True 30 12 = 0"
    by (simp add: all_defs)
  have rate: "calculateMetrics
       \<lparr> amount = 1000, interestRate = 1.667, interestType = monthly_flat, tenor = 10,
         tenorUnit = months, adminFee = 0, monthlyIncome = 10000, lenderName = ''X'' \<rparr>
       True
     = Inr \<lparr> totalRepayment = 1166.7, monthlyInstallment = 116.67, effectiveApr = 20,
             dtiRatio = 1.17, riskScore = 10, riskLevel = Rendah \<rparr>
   \<and> effectiveAprRaw (locals
       \<lparr> amount = 1000, interestRate = 1.667, interestType = monthly_flat, tenor = 10,
         tenorUnit = months, adminFee = 0, monthlyIncome = 10000, lenderName = ''X'' \<rparr>)
     = 20.004
   \<and> riskScoreOf True 1.17 20 = 0"
    by (simp add: all_defs)
  from general ratio rate show ?thesis by blast
qed

theorem score_reads_unrounded_ratio_witness:
  "calculateMetrics
     \<lparr> amount = 1000, interestRate = 1.667, interestType = monthly_flat, tenor = 10,
       tenorUnit = months, adminFee = 0, monthlyIncome = 300, lenderName = ''Z'' \<rparr>
     False
   = Inr \<lparr> totalRepayment = 1166.7, monthlyInstallment = 116.67, effectiveApr = 20,
           dtiRatio = 38.89, riskScore = 75, riskLevel = Sangat_Berbahaya \<rparr>
   \<and> 75 = 50
        + (if dtiRatioRaw (locals
              \<lparr> amount = 1000, interestRate = 1.667, interestType = monthly_flat, tenor = 10,
                tenorUnit = months, adminFee = 0, monthlyIncome = 300, lenderName = ''Z'' \<rparr>)
              > 30 then 15 else (0::real))
        + (if effectiveAprRaw (locals
              \<lparr> amount = 1000, interestRate = 1.667, interestType = monthly_flat, tenor = 10,
                tenorUnit = months, adminFee = 0, monthlyIncome = 300, lenderName = ''Z'' \<rparr>)
              > 20 then 10 else 0)"
proof -
  let ?i = "\<lparr> amount = 1000, interestRate = 1.667, interestType = monthly_flat, tenor = 10,
       tenorUnit = months, adminFee = 0, monthlyIncome = 300, lenderName = ''Z'' \<rparr>"
  let ?m = "\<lparr> totalRepayment = 1166.7, monthlyInstallment = 116.67, effectiveApr = 20,
           dtiRatio = 38.89, riskScore = 75, riskLevel = Sangat_Berbahaya \<rparr>"
  have run: "calculateMetrics ?i False = Inr ?m"
    by (simp add: all_defs)
  have "dtiRatioRaw (locals ?i) = 11667 / 300" and "effectiveAprRaw (locals ?i) = 20.004"
    by (simp_all add: locals_def helper_defs)
  with run score_reads_unrounded_ratio [of ?i False ?m] show ?thesis by simp
qed

subsection \<open>Validation\<close>

text \<open>
  C3. \<open>calculateMetrics\<close> fails exactly when one of the five constraints is violated;
  the error is that of the first violated constraint in the order amount, interest
  rate, tenor, monthly income, admin fee; a failure is an error value and carries no
  metrics, and when all constraints hold the result is a record of metrics.
\<close>

theorem validation_first_violation:
  "(isl (calculateMetrics i reg) =
      (\<not> (amount i > 0 \<and> interestRate i > 0 \<and> tenor i > 0 \<and> monthlyIncome i > 0
          \<and> adminFee i \<ge> 0)))
   \<and> calculateMetrics i reg =
      (if \<not> amount i > 0 then Inl (Error ''Jumlah pinjaman harus lebih dari 0'')
       else if \<not> interestRate i > 0 then Inl (Error ''Suku bunga harus lebih dari 0'')
       else if \<not> tenor i > 0 then Inl (Error ''Tenor harus lebih dari 0'')
       else if \<not> monthlyIncome i > 0 then Inl (Error ''Gaji bulanan harus lebih dari 0'')
       else if \<not> adminFee i \<ge> 0 then Inl (Error ''Biaya admin tidak boleh negatif'')
       else Inr \<lparr> totalRepayment = round2 (totalRepaymentRaw (locals i)),
                  monthlyInstallment = round2 (monthlyInstallmentRaw (locals i)),
                  effectiveApr = round2 (effectiveAprRaw (locals i)),
                  dtiRatio = round2 (dtiRatioRaw (locals i)),
                  riskScore =
                    riskScoreOf reg (dtiRatioRaw (locals i)) (effectiveAprRaw (locals i)),
                  riskLevel =
                    riskLevelOf
                      (riskScoreOf reg (dtiRatioRaw (locals i)) (effectiveAprRaw (locals i))) \<rparr>)"
  by (auto simp add: calculateMetrics_def validateInput_def Let_def)

text \<open>
  C2 (a reducing-balance loan at rate 0 is returned with no interest). As the claim
  states it, this fails: validation rejects an interest rate of 0, so \<open>calculateMetrics\<close>
  returns no metrics for such an input.
\<close>

theorem zero_rate_rejected:
  "calculateMetrics
     \<lparr> amount = 1200000, interestRate = 0, interestType = reducing_balance, tenor = 12,
       tenorUnit = months, adminFee = 60000, monthlyIncome = 5000000, lenderName = ''X'' \<rparr>
     True
   = Inl (Error ''Suku bunga harus lebih dari 0'')"
  by (simp add: calculateMetrics_def validateInput_def)

text \<open>
  C2, amended. Called with rate 0, the helper \<open>calculateReducingBalanceInterest\<close>
  returns no interest and the instalment \<open>(principal + adminFee) / tenorInMonths\<close>; but
  \<open>calculateMetrics\<close> fails on every input whose interest rate is 0, with the error of
  the amount when the amount is not positive and the error of the interest rate
  otherwise, so it never calls the helper with rate 0.
\<close>

theorem zero_rate_helper_and_validation:
  "calculateReducingBalanceInterest p 0 n f = ((p + f) / n, 0)
   \<and> calculateMetrics (i\<lparr>interestRate := 0\<rparr>) reg =
       Inl (Error (if amount i \<le> 0 then ''Jumlah pinjaman harus lebih dari 0''
                   else ''Suku bunga harus lebih dari 0''))"
  by (simp add: calculateMetrics_def validateInput_def calculateReducingBalanceInterest_def)

subsection \<open>Interest and annual rate\<close>

text \<open>
  C4. For a validated input with daily interest the total interest is
  \<open>amount * (interestRate / 100) * tenorInDays\<close>, the tenor in days being the tenor
  itself or 30 times the tenor in months, and the annual rate before rounding is
  \<open>(interestRate / 100) * 365 * 100\<close>; with monthly flat interest the total interest is
  \<open>amount * (interestRate / 100) * tenorInMonths\<close> and the annual rate before rounding
  \<open>(interestRate / 100) * 12 * 100\<close>; the tenor in months is the tenor itself or a thirtieth
  of the tenor in days. The returned total repayment and annual rate are these values,
  with the amount and the fee added to the interest, rounded to two decimals.
\<close>

theorem interest_formulas:
  assumes "validateInput i = Inr ()"
  shows "(interestType i = daily \<longrightarrow>
            totalInterest (locals i) =
              amount i * (interestRate i / 100)
                * (if tenorUnit i = days then tenor i else tenor i * 30)
          \<and> effectiveAprRaw (locals i) = (interestRate i / 100) * 365 * 100)
       \<and> (interestType i = monthly_flat \<longrightarrow>
            totalInterest (locals i) =
              amount i * (interestRate i / 100) * tenorInMonths (locals i)
          \<and> effectiveAprRaw (locals i) = (interestRate i / 100) * 12 * 100)
       \<and> tenorInMonths (locals i) = (if tenorUnit i = months then tenor i else tenor i / 30)
       \<and> (\<exists>m. calculateMetrics i reg = Inr m
             \<and> totalRepayment m = round2 (amount i + totalInterest (locals i) + adminFee i)
             \<and> effectiveApr m = round2 (effectiveAprRaw (locals i)))"
  using assms
  by (simp add: calculateMetrics_Inr locals_effectiveAprRaw locals_totalInterest_daily
      locals_totalInterest_flat locals_totalRepaymentRaw locals_tenorInMonths)

theorem interest_formulas_witness:
  "validateInput
     \<lparr> amount = 1000000, interestRate = 1, interestType = daily, tenor = 2,
       tenorUnit = months, adminFee = 50000, monthlyIncome = 5000000, lenderName = ''X'' \<rparr>
     = Inr ()
   \<and> totalInterest (locals
       \<lparr> amount = 1000000, interestRate = 1, interestType = daily, tenor = 2,
         tenorUnit = months, adminFee = 50000, monthlyIncome = 5000000, lenderName = ''X'' \<rparr>)
     = 600000
   \<and> effectiveAprRaw (locals
       \<lparr> amount = 1000000, interestRate = 1, interestType = daily, tenor = 2,
         tenorUnit = months, adminFee = 50000, monthlyIncome = 5000000, lenderName = ''X'' \<rparr>)
     = 365
   \<and> validateInput
     \<lparr> amount = 1000000, interestRate = 2, interestType = monthly_flat, tenor = 60,
       tenorUnit = days, adminFee = 0, monthlyIncome = 375000, lenderName = ''X'' \<rparr>
     = Inr ()
   \<and> totalInterest (locals
       \<lparr> amount = 1000000, interestRate = 2, interestType = monthly_flat, tenor = 60,
         tenorUnit = days, adminFee = 0, monthlyIncome = 375000, lenderName = ''X'' \<rparr>)
     = 40000
   \<and> effectiveAprRaw (locals
       \<lparr> amount = 1000000, interestRate = 2, interestType = monthly_flat, tenor = 60,
         tenorUnit = days, adminFee = 0, monthlyIncome = 375000, lenderName = ''X'' \<rparr>)
     = 24"
proof -
  let ?d = "\<lparr> amount = 1000000, interestRate = 1, interestType = daily, tenor = 2,
       tenorUnit = months, adminFee = 50000, monthlyIncome = 5000000, lenderName = ''X'' \<rparr>"
  let ?f = "\<lparr> amount = 1000000, interestRate = 2, interestType = monthly_flat, tenor = 60,
       tenorUnit = days, adminFee = 0, monthlyIncome = 375000, lenderName = ''X'' \<rparr>"
  have d: "validateInput ?d = Inr ()" by (simp add: validateInput_def)
  have f: "validateInput ?f = Inr ()" by (simp add: validateInput_def)
  from interest_formulas [OF d, of True] interest_formulas [OF f, of True] d f
  show ?thesis by simp
qed

text \<open>
  C9. Two validated inputs with the same interest rate and the same interest type are
  returned the same annual rate, whatever their other fields and registration flags: the
  rate is \<open>(interestRate / 100) * 365 * 100\<close> for daily interest and
  \<open>(interestRate / 100) * 12 * 100\<close> for the other two types, rounded to two decimals.
\<close>

theorem effectiveApr_depends_on_rate_and_type_only:
  assumes "calculateMetrics i1 r1 = Inr m1" and "calculateMetrics i2 r2 = Inr m2"
    and "interestRate i1 = interestRate i2" and "interestType i1 = interestType i2"
  shows "effectiveApr m1 = effectiveApr m2
       \<and> effectiveApr m1 =
           round2 ((interestRate i1 / 100) * (if interestType i1 = daily then 365 else 12) * 100)"
  using assms by (simp add: calculateMetrics_Inr locals_effectiveAprRaw)

theorem effectiveApr_depends_on_rate_and_type_only_witness:
  "calculateMetrics
     \<lparr> amount = 1000, interestRate = 2, interestType = reducing_balance, tenor = 1,
       tenorUnit = months, adminFee = 0, monthlyIncome = 10000, lenderName = ''A'' \<rparr>
     False
   = Inr \<lparr> totalRepayment = 1020, monthlyInstallment = 1020, effectiveApr = 24,
           dtiRatio = 10.2, riskScore = 60, riskLevel = Tinggi \<rparr>
   \<and> calculateMetrics
     \<lparr> amount = 40400, interestRate = 2, interestType = reducing_balance, tenor = 2,
       tenorUnit = months, adminFee = 100, monthlyIncome = 100000, lenderName = ''B'' \<rparr>
     True
   = Inr \<lparr> totalRepayment = 41716, monthlyInstallment = 20858, effectiveApr = 24,
           dtiRatio = 20.86, riskScore = 10, riskLevel = Rendah \<rparr>"
proof -
  let ?a = "\<lparr> amount = 1000, interestRate = 2, interestType = reducing_balance, tenor = 1,
       tenorUnit = months, adminFee = 0, monthlyIncome = 10000, lenderName = ''A'' \<rparr>"
  let ?b = "\<lparr> amount = 40400, interestRate = 2, interestType = reducing_balance, tenor = 2,
       tenorUnit = months, adminFee = 100, monthlyIncome = 100000, lenderName = ''B'' \<rparr>"
  let ?ma = "\<lparr> totalRepayment = 1020, monthlyInstallment = 1020, effectiveApr = 24,
           dtiRatio = 10.2, riskScore = 60, riskLevel = Tinggi \<rparr>"
  let ?mb = "\<lparr> totalRepayment = 41716, monthlyInstallment = 20858, effectiveApr = 24,
           dtiRatio = 20.86, riskScore = 10, riskLevel = Rendah \<rparr>"
  have a: "calculateMetrics ?a False = Inr ?ma" by (simp add: all_defs)
  have b: "calculateMetrics ?b True = Inr ?mb" by (simp add: all_defs power2_eq_square)
  from effectiveApr_depends_on_rate_and_type_only [OF a b] a b show ?thesis by simp
qed

subsection \<open>The worked scenario\<close>

text \<open>
  C5. The worked scenario of the specification: one million borrowed at 1 percent a day
  for 30 days with a fee of 50,000, an income of five million, lender not registered.
\<close>

theorem scenario_daily_unregistered:
  "calculateMetrics
     \<lparr> amount = 1000000, interestRate = 1, interestType = daily, tenor = 30,
       tenorUnit = days, adminFee = 50000, monthlyIncome = 5000000, lenderName = ''X'' \<rparr>
     False
   = Inr \<lparr> totalRepayment = 1350000, monthlyInstallment = 1350000, effectiveApr = 365,
           dtiRatio = 27, riskScore = 80, riskLevel = Sangat_Berbahaya \<rparr>"
  by (simp add: all_defs)

end
